theory Spec2Isabelle
  imports Main "HOL-Library.Word"
begin

unbundle bit_operations_syntax

section \<open>Native types and constants used by \<^verbatim>\<open>os/win/dnd.cpp\<close>\<close>

text \<open>
  \<^verbatim>\<open>DWORD\<close> and \<^verbatim>\<open>UINT\<close> are unsigned 32-bit, \<^verbatim>\<open>HRESULT\<close> is a signed 32-bit
  \<^verbatim>\<open>LONG\<close> (only compared for equality here, so its bit pattern is kept),
  \<^verbatim>\<open>CLIPFORMAT\<close> is a 16-bit \<^verbatim>\<open>WORD\<close>. \<^verbatim>\<open>os::DropOperation\<close> is an
  \<^verbatim>\<open>enum class\<close> over \<^verbatim>\<open>int\<close> that the code casts to \<^verbatim>\<open>int\<close> and combines bitwise;
  it is kept as the 32-bit pattern of that \<^verbatim>\<open>int\<close>.
\<close>

type_synonym DWORD = "32 word"
type_synonym UINT = "32 word"
type_synonym HRESULT = "32 word"
type_synonym CLIPFORMAT = "16 word"
type_synonym DropOperation = "32 word"

text \<open>The drop-effect flags of the platform's \<^verbatim>\<open>oleidl.h\<close>.\<close>

definition DROPEFFECT_NONE :: DWORD where "DROPEFFECT_NONE = 0"
definition DROPEFFECT_COPY :: DWORD where "DROPEFFECT_COPY = 1"
definition DROPEFFECT_MOVE :: DWORD where "DROPEFFECT_MOVE = 2"
definition DROPEFFECT_LINK :: DWORD where "DROPEFFECT_LINK = 4"

text \<open>
  Modelled from the spec: the enumerators of \<^verbatim>\<open>os::DropOperation\<close> are declared in
  \<^verbatim>\<open>os/dnd.h\<close>, which is not among the sources. The spec describes the type as a
  bitmask over Copy, Move, Link and None that is usable as a bit-set, with None the value
  without bits: None is 0 and Copy, Move, Link are the single bits 1, 2 and 4.
\<close>

definition DropOperation_None :: DropOperation where "DropOperation_None = 0"
definition DropOperation_Copy :: DropOperation where "DropOperation_Copy = 1"
definition DropOperation_Move :: DropOperation where "DropOperation_Move = 2"
definition DropOperation_Link :: DropOperation where "DropOperation_Link = 4"

text \<open>The status codes of the platform's \<^verbatim>\<open>winerror.h\<close>.\<close>

definition S_OK :: HRESULT where "S_OK = 0"
definition E_NOTIMPL :: HRESULT where "E_NOTIMPL = 0x80004001"
definition E_UNEXPECTED :: HRESULT where "E_UNEXPECTED = 0x8000FFFF"

section \<open>Effect and operation conversion\<close>

text \<open>
  \<^verbatim>\<open>as_dropeffect\<close> (dnd.cpp, lines 18 to 31): starts from \<^verbatim>\<open>DROPEFFECT_NONE\<close> and ORs
  in one native flag for each portable bit that is set.
\<close>

definition as_dropeffect :: "DropOperation \<Rightarrow> DWORD" where
  "as_dropeffect op =
    (let effect = DROPEFFECT_NONE;
         effect = (if op AND DropOperation_Copy \<noteq> 0 then effect OR DROPEFFECT_COPY else effect);
         effect = (if op AND DropOperation_Move \<noteq> 0 then effect OR DROPEFFECT_MOVE else effect);
         effect = (if op AND DropOperation_Link \<noteq> 0 then effect OR DROPEFFECT_LINK else effect)
     in effect)"

text \<open>
  \<^verbatim>\<open>as_dropoperation\<close> (dnd.cpp, lines 33 to 46): starts from 0 and ORs in one portable
  bit for each native flag that is set.
\<close>

definition as_dropoperation :: "DWORD \<Rightarrow> DropOperation" where
  "as_dropoperation pdwEffect =
    (let op = 0;
         op = (if pdwEffect AND DROPEFFECT_COPY \<noteq> 0 then op OR DropOperation_Copy else op);
         op = (if pdwEffect AND DROPEFFECT_MOVE \<noteq> 0 then op OR DropOperation_Move else op);
         op = (if pdwEffect AND DROPEFFECT_LINK \<noteq> 0 then op OR DropOperation_Link else op)
     in op)"

text \<open>The eight subsets of Copy, Move and Link, as bitmasks.\<close>

definition operation_subsets :: "DropOperation list" where
  "operation_subsets =
    [DropOperation_None,
     DropOperation_Copy, DropOperation_Move, DropOperation_Link,
     DropOperation_Copy OR DropOperation_Move,
     DropOperation_Copy OR DropOperation_Link,
     DropOperation_Move OR DropOperation_Link,
     DropOperation_Copy OR DropOperation_Move OR DropOperation_Link]"

section \<open>The drag-target adapter\<close>

text \<open>
  A pointer to a transfer object is its address, or \<open>None\<close> for \<^verbatim>\<open>nullptr\<close>;
  \<^verbatim>\<open>base::ComPtr<IDataObject>\<close> holds such a pointer and is false exactly when it is
  null. \<^verbatim>\<open>POINTL\<close> and \<^verbatim>\<open>gfx::Point\<close> are pairs of coordinates.
\<close>

type_synonym IDataObject_ptr = "nat option"
type_synonym Point = "int \<times> int"
type_synonym HWND = nat

text \<open>
  \<^verbatim>\<open>os::DragEvent\<close> as the callbacks build it: the operations decoded from the effect, the
  position, and the provider, which wraps the pointer it was made from.
\<close>

record DragEvent =
  supportedOperations :: DropOperation
  position :: Point
  dataProvider :: IDataObject_ptr

text \<open>
  The window the adapter was made for (\<^verbatim>\<open>os/window.h\<close>, an external collaborator). Each
  notify function stands for the window's handler: its value is what \<^verbatim>\<open>ev.dropResult()\<close>
  holds when the handler returns, so every behaviour of a handler is some function here.
\<close>

record Window =
  hasDragTarget :: bool
  nativeHandle :: HWND
  notifyDragEnter :: "DragEvent \<Rightarrow> DropOperation"
  notifyDrag :: "DragEvent \<Rightarrow> DropOperation"
  notifyDragLeave :: "DragEvent \<Rightarrow> DropOperation"
  notifyDrop :: "DragEvent \<Rightarrow> DropOperation"

text \<open>The members of \<^verbatim>\<open>DragTargetAdapter\<close> that the session callbacks use.\<close>

record DragTargetAdapter =
  m_window :: Window
  m_data :: IDataObject_ptr
  m_position :: Point

text \<open>
  Modelled from the spec: the constructor of the adapter is declared in \<^verbatim>\<open>os/win/dnd.h\<close>,
  which is not among the sources. The initial Idle state holds no transfer-object reference
  and a default-constructed position, the origin.
\<close>

definition DragTargetAdapter_new :: "Window \<Rightarrow> DragTargetAdapter" where
  "DragTargetAdapter_new w = \<lparr>m_window = w, m_data = None, m_position = (0, 0)\<rparr>"

text \<open>
  \<^verbatim>\<open>drag_position\<close> (lines 49 to 53): the platform's \<^verbatim>\<open>ScreenToClient\<close> rewrites the
  point for the window handle; it is the parameter \<open>stc\<close>.
\<close>

definition drag_position :: "(HWND \<Rightarrow> Point \<Rightarrow> Point) \<Rightarrow> HWND \<Rightarrow> Point \<Rightarrow> Point" where
  "drag_position stc hwnd pt = stc hwnd pt"

text \<open>
  The four session callbacks (lines 255 to 342). Each returns its status, the adapter after
  the call and, where the callback has the in/out parameter, the value of \<^verbatim>\<open>*pdwEffect\<close>
  after the call. Every \<^verbatim>\<open>return\<close> of the source is one branch.
\<close>

definition DragEnter ::
  "(HWND \<Rightarrow> Point \<Rightarrow> Point) \<Rightarrow> DragTargetAdapter \<Rightarrow> IDataObject_ptr \<Rightarrow> DWORD \<Rightarrow> Point \<Rightarrow> DWORD
    \<Rightarrow> HRESULT \<times> DragTargetAdapter \<times> DWORD" where
  "DragEnter stc this pDataObj grfKeyState pt pdwEffect =
    (if \<not> hasDragTarget (m_window this) then (E_NOTIMPL, this, pdwEffect)
     else
       let this = this\<lparr>m_data := pDataObj\<rparr> in
       if m_data this = None then (E_UNEXPECTED, this, pdwEffect)
       else
         let this = this\<lparr>m_position := drag_position stc (nativeHandle (m_window this)) pt\<rparr>;
             ev = \<lparr>supportedOperations = as_dropoperation pdwEffect,
                   position = m_position this,
                   dataProvider = m_data this\<rparr>;
             dropResult = notifyDragEnter (m_window this) ev
         in (S_OK, this, as_dropeffect dropResult))"

definition DragOver ::
  "(HWND \<Rightarrow> Point \<Rightarrow> Point) \<Rightarrow> DragTargetAdapter \<Rightarrow> DWORD \<Rightarrow> Point \<Rightarrow> DWORD
    \<Rightarrow> HRESULT \<times> DragTargetAdapter \<times> DWORD" where
  "DragOver stc this grfKeyState pt pdwEffect =
    (if \<not> hasDragTarget (m_window this) then (E_NOTIMPL, this, pdwEffect)
     else
       let this = this\<lparr>m_position := drag_position stc (nativeHandle (m_window this)) pt\<rparr>;
           ev = \<lparr>supportedOperations = as_dropoperation pdwEffect,
                 position = m_position this,
                 dataProvider = m_data this\<rparr>;
           dropResult = notifyDrag (m_window this) ev
       in (S_OK, this, as_dropeffect dropResult))"

definition DragLeave :: "DragTargetAdapter \<Rightarrow> HRESULT \<times> DragTargetAdapter" where
  "DragLeave this =
    (if \<not> hasDragTarget (m_window this) then (E_NOTIMPL, this)
     else
       let ev = \<lparr>supportedOperations = DropOperation_None,
                 position = m_position this,
                 dataProvider = m_data this\<rparr>;
           dropResult = notifyDragLeave (m_window this) ev;
           this = this\<lparr>m_data := None\<rparr>
       in (S_OK, this))"

definition Drop ::
  "(HWND \<Rightarrow> Point \<Rightarrow> Point) \<Rightarrow> DragTargetAdapter \<Rightarrow> IDataObject_ptr \<Rightarrow> DWORD \<Rightarrow> Point \<Rightarrow> DWORD
    \<Rightarrow> HRESULT \<times> DragTargetAdapter \<times> DWORD" where
  "Drop stc this pDataObj grfKeyState pt pdwEffect =
    (if \<not> hasDragTarget (m_window this) then (E_NOTIMPL, this, pdwEffect)
     else
       let this = this\<lparr>m_data := pDataObj\<rparr> in
       if m_data this = None then (E_UNEXPECTED, this, pdwEffect)
       else
         let this = this\<lparr>m_position := drag_position stc (nativeHandle (m_window this)) pt\<rparr>;
             ev = \<lparr>supportedOperations = as_dropoperation pdwEffect,
                   position = m_position this,
                   dataProvider = m_data this\<rparr>;
             dropResult = notifyDrop (m_window this) ev;
             this = this\<lparr>m_data := None\<rparr>
         in (S_OK, this, as_dropeffect dropResult))"

text \<open>Projections of a callback's result.\<close>

definition status_of :: "HRESULT \<times> 'a \<Rightarrow> HRESULT" where
  "status_of r = fst r"

definition adapter_of :: "HRESULT \<times> DragTargetAdapter \<times> DWORD \<Rightarrow> DragTargetAdapter" where
  "adapter_of r = fst (snd r)"

text \<open>Concrete collaborators for evaluating the callbacks on examples.\<close>

definition example_window :: "bool \<Rightarrow> Window" where
  "example_window target =
    \<lparr>hasDragTarget = target, nativeHandle = 1,
     notifyDragEnter = (\<lambda>ev. supportedOperations ev AND DropOperation_Copy),
     notifyDrag = (\<lambda>ev. supportedOperations ev AND DropOperation_Copy),
     notifyDragLeave = (\<lambda>ev. DropOperation_None),
     notifyDrop = (\<lambda>ev. DropOperation_None)\<rparr>"

definition example_stc :: "HWND \<Rightarrow> Point \<Rightarrow> Point" where
  "example_stc hwnd pt = (fst pt - 100, snd pt - 50)"

text \<open>
  \<^verbatim>\<open>m_window\<close> points to the live window, and every callback reads
  \<^verbatim>\<open>hasDragTarget()\<close> from it anew. A window whose state has changed between two
  callbacks is a new value of that member.
\<close>

definition window_becomes :: "DragTargetAdapter \<Rightarrow> Window \<Rightarrow> DragTargetAdapter" where
  "window_becomes this w = this\<lparr>m_window := w\<rparr>"

section \<open>The reference count of the adapter\<close>











section \<open>The transfer object and its format data\<close>

text \<open>
  The clipboard formats of the platform's \<^verbatim>\<open>winuser.h\<close> that the provider names.
\<close>

definition CF_DIB :: CLIPFORMAT where "CF_DIB = 8"
definition CF_HDROP :: CLIPFORMAT where "CF_HDROP = 15"
definition CF_DIBV5 :: CLIPFORMAT where "CF_DIBV5 = 17"

text \<open>
  An \<^verbatim>\<open>HGLOBAL\<close> is a handle, 0 the null handle. The transfer object is known by what
  its two methods answer: \<^verbatim>\<open>GetData\<close> for a format gives a status and the handle it
  stored in the medium; \<^verbatim>\<open>EnumFormatEtc\<close> gives a status and the formats that the
  enumerator's \<^verbatim>\<open>Next\<close> hands out, one by one, until it stops answering \<^verbatim>\<open>S_OK\<close>.
\<close>

type_synonym HGLOBAL = nat
type_synonym bytes = "8 word list"

record IDataObject =
  GetData :: "CLIPFORMAT \<Rightarrow> HRESULT \<times> HGLOBAL"
  EnumFormatEtc :: "HRESULT \<times> CLIPFORMAT list"

text \<open>
  \<^verbatim>\<open>GLocked\<close> (lines 56 to 79) locks the handle it is built from and compares its
  pointer with \<^verbatim>\<open>nullptr\<close>. \<^verbatim>\<open>GlobalLock\<close> of the platform is the parameter \<open>lock\<close>;
  on the null handle it gives the null pointer.
\<close>

definition GLocked :: "(HGLOBAL \<Rightarrow> bytes option) \<Rightarrow> HGLOBAL \<Rightarrow> bytes option" where
  "GLocked lock hglobal = (if hglobal = 0 then None else lock hglobal)"

text \<open>
  \<^verbatim>\<open>DataWrapper\<close> (lines 81 to 117). Its members are the transfer object, the medium and
  the status of the last query, initially \<open>-1\<close>. Beside the wrapper runs the list of the
  media that \<^verbatim>\<open>GetData\<close> has delivered to it and \<^verbatim>\<open>ReleaseStgMedium\<close> has not yet
  released: a medium becomes live when \<^verbatim>\<open>GetData\<close> answers \<^verbatim>\<open>S_OK\<close>.
\<close>

record DataWrapper =
  m_data_w :: IDataObject
  m_medium :: HGLOBAL
  m_result :: HRESULT

definition DataWrapper_new :: "IDataObject \<Rightarrow> DataWrapper" where
  "DataWrapper_new data = \<lparr>m_data_w = data, m_medium = 0, m_result = - 1\<rparr>"

definition release :: "DataWrapper \<Rightarrow> HGLOBAL list \<Rightarrow> DataWrapper \<times> HGLOBAL list" where
  "release w live =
    (if m_result w = S_OK then (w\<lparr>m_result := - 1\<rparr>, remove1 (m_medium w) live)
     else (w, live))"

text \<open>The part of \<^verbatim>\<open>get\<close> after its call of \<^verbatim>\<open>release\<close>: the format query.\<close>

definition query :: "DataWrapper \<Rightarrow> HGLOBAL list \<Rightarrow> CLIPFORMAT \<Rightarrow> HGLOBAL \<times> DataWrapper \<times> HGLOBAL list" where
  "query w live cfmt =
    (let (hr, h) = GetData (m_data_w w) cfmt;
         live = (if hr = S_OK then h # live else live);
         w = w\<lparr>m_result := hr, m_medium := h\<rparr>
     in if m_result w \<noteq> S_OK then (0, w, live) else (m_medium w, w, live))"

text \<open>\<^verbatim>\<open>get\<close> gives the handle that the returned \<^verbatim>\<open>GLocked\<close> is built from.\<close>

definition get :: "DataWrapper \<Rightarrow> HGLOBAL list \<Rightarrow> CLIPFORMAT \<Rightarrow> HGLOBAL \<times> DataWrapper \<times> HGLOBAL list" where
  "get w live cfmt = (let (w, live) = release w live in query w live cfmt)"

text \<open>The destructor calls \<^verbatim>\<open>release\<close>; what stays live outlives the wrapper.\<close>

definition DataWrapper_destroy :: "DataWrapper \<Rightarrow> HGLOBAL list \<Rightarrow> HGLOBAL list" where
  "DataWrapper_destroy w live = snd (release w live)"

text \<open>Any number of queries on one wrapper, in order.\<close>

fun gets :: "DataWrapper \<Rightarrow> HGLOBAL list \<Rightarrow> CLIPFORMAT list \<Rightarrow> DataWrapper \<times> HGLOBAL list" where
  "gets w live [] = (w, live)"
| "gets w live (cfmt # cfmts) = (case get w live cfmt of (h, w', live') \<Rightarrow> gets w' live' cfmts)"

section \<open>The content provider\<close>

text \<open>
  What \<^verbatim>\<open>getImage\<close> takes from outside: the identifier that
  \<^verbatim>\<open>RegisterClipboardFormatA("PNG")\<close> gives (0 when it fails), \<^verbatim>\<open>GlobalLock\<close> and
  \<^verbatim>\<open>GlobalSize\<close>, the decoders of the clip library (a decoder that returns true gives
  \<open>Some\<close> image) and the system's \<^verbatim>\<open>makeSurface\<close>, whose \<^verbatim>\<open>SurfaceRef\<close> may be null.
\<close>

record ('i, 's) image_env =
  RegisterClipboardFormatA_PNG :: UINT
  GlobalLock :: "HGLOBAL \<Rightarrow> bytes option"
  GlobalSize :: "HGLOBAL \<Rightarrow> nat"
  read_png :: "bytes \<Rightarrow> nat \<Rightarrow> 'i option"
  BitmapInfo_v5_to_image :: "bytes \<Rightarrow> 'i option"
  BitmapInfo_to_image :: "bytes \<Rightarrow> 'i option"
  makeSurface :: "'i \<Rightarrow> 's option"

text \<open>
  \<^verbatim>\<open>DragDataProviderWin::getImage\<close> (lines 144 to 190). The PNG identifier is a
  \<^verbatim>\<open>UINT\<close> passed where \<^verbatim>\<open>get\<close> takes a \<^verbatim>\<open>CLIPFORMAT\<close>, hence the narrowing. The
  result is the surface and the media still live once the wrapper is destroyed.
\<close>

definition getImage :: "('i, 's) image_env \<Rightarrow> IDataObject \<Rightarrow> 's option \<times> HGLOBAL list" where
  "getImage env m_data_p =
    (let data = DataWrapper_new m_data_p;
         live = [];
         png_format = RegisterClipboardFormatA_PNG env;
         (png, data, live) =
           (if png_format \<noteq> 0 then
              (let (png_handle, data, live) = get data live (ucast png_format) in
               case GLocked (GlobalLock env) png_handle of
                 None \<Rightarrow> (None, data, live)
               | Some p \<Rightarrow> (read_png env p (GlobalSize env png_handle), data, live))
            else (None, data, live))
     in case png of
          Some img \<Rightarrow> (makeSurface env img, DataWrapper_destroy data live)
        | None \<Rightarrow>
            (let (b5, data, live) = get data live CF_DIBV5 in
             case (case GLocked (GlobalLock env) b5 of
                     None \<Rightarrow> None
                   | Some p \<Rightarrow> BitmapInfo_v5_to_image env p) of
               Some img \<Rightarrow> (makeSurface env img, DataWrapper_destroy data live)
             | None \<Rightarrow>
                 (let (hbi, data, live) = get data live CF_DIB in
                  case (case GLocked (GlobalLock env) hbi of
                          None \<Rightarrow> None
                        | Some p \<Rightarrow> BitmapInfo_to_image env p) of
                    Some img \<Rightarrow> (makeSurface env img, DataWrapper_destroy data live)
                  | None \<Rightarrow> (None, DataWrapper_destroy data live))))"

text \<open>
  The priority chain in the spec's words: an ordered list of pairs of a format identifier
  and a decode function, tried in sequence, where the first format that delivers data and
  decodes wins. The PNG pair is there when the PNG identifier could be registered.
\<close>

definition spec_image_formats ::
  "('i, 's) image_env \<Rightarrow> (CLIPFORMAT \<times> (HGLOBAL \<Rightarrow> bytes \<Rightarrow> 'i option)) list" where
  "spec_image_formats env =
    (if RegisterClipboardFormatA_PNG env \<noteq> 0
     then [(ucast (RegisterClipboardFormatA_PNG env), \<lambda>h p. read_png env p (GlobalSize env h))]
     else [])
    @ [(CF_DIBV5, \<lambda>h p. BitmapInfo_v5_to_image env p),
       (CF_DIB, \<lambda>h p. BitmapInfo_to_image env p)]"

definition spec_delivers :: "('i, 's) image_env \<Rightarrow> IDataObject \<Rightarrow> CLIPFORMAT \<Rightarrow> (HGLOBAL \<times> bytes) option" where
  "spec_delivers env obj cfmt =
    (case GetData obj cfmt of (hr, h) \<Rightarrow>
       if hr = S_OK \<and> h \<noteq> 0 then map_option (\<lambda>p. (h, p)) (GlobalLock env h) else None)"

fun spec_first_decoded ::
  "('i, 's) image_env \<Rightarrow> IDataObject \<Rightarrow> (CLIPFORMAT \<times> (HGLOBAL \<Rightarrow> bytes \<Rightarrow> 'i option)) list \<Rightarrow> 'i option" where
  "spec_first_decoded env obj [] = None"
| "spec_first_decoded env obj ((cfmt, decode) # rest) =
    (case spec_delivers env obj cfmt of
       None \<Rightarrow> spec_first_decoded env obj rest
     | Some (h, p) \<Rightarrow>
         (case decode h p of
            Some img \<Rightarrow> Some img
          | None \<Rightarrow> spec_first_decoded env obj rest))"

text \<open>
  \<^verbatim>\<open>DragDataProviderWin::contains\<close> (lines 192 to 224). \<^verbatim>\<open>GetClipboardFormatNameA\<close>
  copies at most one character less than the count it is given of the format's registered
  name, nothing when the format has none; \<open>names\<close> gives the registered names, which are
  C strings. The loop over \<^verbatim>\<open>Next\<close> is the recursion over the enumerated formats.
\<close>

datatype DragDataItemType = Paths | Image

definition GetClipboardFormatNameA :: "(CLIPFORMAT \<Rightarrow> string) \<Rightarrow> CLIPFORMAT \<Rightarrow> nat \<Rightarrow> string" where
  "GetClipboardFormatNameA names cfmt cchMaxCount = take (cchMaxCount - 1) (names cfmt)"

fun contains_loop :: "(CLIPFORMAT \<Rightarrow> string) \<Rightarrow> DragDataItemType \<Rightarrow> CLIPFORMAT list \<Rightarrow> bool" where
  "contains_loop names type [] = False"
| "contains_loop names type (cfFormat # formats) =
    (if cfFormat = CF_HDROP then
       (if type = Paths then True else contains_loop names type formats)
     else if cfFormat = CF_DIBV5 then
       (if type = Image then True else contains_loop names type formats)
     else if cfFormat = CF_DIB then
       (if type = Image then True else contains_loop names type formats)
     else
       (let name = GetClipboardFormatNameA names cfFormat 100 in
        if name = ''PNG'' \<and> type = Image then True
        else contains_loop names type formats))"

definition contains :: "(CLIPFORMAT \<Rightarrow> string) \<Rightarrow> IDataObject \<Rightarrow> DragDataItemType \<Rightarrow> bool" where
  "contains names m_data_p type =
    (case EnumFormatEtc m_data_p of (hr, formats) \<Rightarrow>
       if hr \<noteq> S_OK then False else contains_loop names type formats)"

section \<open>Tablet buttons (\<^verbatim>\<open>os/win/wintab.cpp\<close>)\<close>

text \<open>
  The button codes of the Wintab interface header: the relative button states and the
  system button actions. A \<^verbatim>\<open>BYTE\<close> is 8 bits; the \<^verbatim>\<open>int\<close> arguments are only
  compared, so they are integers.
\<close>

type_synonym BYTE = "8 word"

definition TBN_NONE :: int where "TBN_NONE = 0"
definition TBN_UP :: int where "TBN_UP = 1"
definition TBN_DOWN :: int where "TBN_DOWN = 2"

definition SBN_LCLICK :: BYTE where "SBN_LCLICK = 1"
definition SBN_LDBLCLICK :: BYTE where "SBN_LDBLCLICK = 2"
definition SBN_LDRAG :: BYTE where "SBN_LDRAG = 3"
definition SBN_RCLICK :: BYTE where "SBN_RCLICK = 4"
definition SBN_RDBLCLICK :: BYTE where "SBN_RDBLCLICK = 5"
definition SBN_RDRAG :: BYTE where "SBN_RDRAG = 6"
definition SBN_MCLICK :: BYTE where "SBN_MCLICK = 7"
definition SBN_MDBLCLICK :: BYTE where "SBN_MDBLCLICK = 8"
definition SBN_MDRAG :: BYTE where "SBN_MDRAG = 9"

datatype Event_Type = MouseMove | MouseDown | MouseUp | MouseDoubleClick

datatype Event_MouseButton = NoneButton | LeftButton | RightButton | MiddleButton

text \<open>
  Indexing a C array outside its bounds is undefined behaviour; the model makes it a fault
  that the function would have to return.
\<close>

datatype fault = OutOfBounds

definition array_read :: "'a list \<Rightarrow> int \<Rightarrow> fault + 'a" where
  "array_read xs i =
    (if 0 \<le> i \<and> i < int (length xs) then Inr (xs ! nat i) else Inl OutOfBounds)"

text \<open>
  \<^verbatim>\<open>WintabAPI::mapCursorButton\<close> (lines 207 to 273). The two reference parameters are
  both assigned before anything else, so they are results only. \<open>sysbtnmap\<close> gives, for a
  cursor, the 32 bytes that \<^verbatim>\<open>map\<close> holds after the call of \<^verbatim>\<open>WTInfo\<close>. The cases
  of the second \<^verbatim>\<open>switch\<close> fall through from the double click to the button.
\<close>

definition mapCursorButton ::
  "(int \<Rightarrow> nat \<Rightarrow> BYTE) \<Rightarrow> int \<Rightarrow> int \<Rightarrow> int \<Rightarrow> fault + (Event_Type \<times> Event_MouseButton)" where
  "mapCursorButton sysbtnmap cursor logicalButton relativeButton =
    (let mouseButton = NoneButton;
         evType = (if relativeButton = TBN_DOWN then MouseDown
                   else if relativeButton = TBN_UP then MouseUp
                   else MouseMove)
     in if logicalButton < 0 \<or> logicalButton \<ge> 32 then Inr (evType, mouseButton)
        else
          let btnmap = map (sysbtnmap cursor) [0..<32] in
          case array_read btnmap logicalButton of
            Inl f \<Rightarrow> Inl f
          | Inr action \<Rightarrow>
              if action = SBN_LDBLCLICK then Inr (MouseDoubleClick, LeftButton)
              else if action = SBN_LCLICK \<or> action = SBN_LDRAG then Inr (evType, LeftButton)
              else if action = SBN_RDBLCLICK then Inr (MouseDoubleClick, RightButton)
              else if action = SBN_RCLICK \<or> action = SBN_RDRAG then Inr (evType, RightButton)
              else if action = SBN_MDBLCLICK then Inr (MouseDoubleClick, MiddleButton)
              else if action = SBN_MCLICK \<or> action = SBN_MDRAG then Inr (evType, MiddleButton)
              else Inr (evType, mouseButton))"

section \<open>Auxiliary notions and sample collaborators\<close>

text \<open>
  What the wrapper's status says about the live media: the medium of the last query when
  that query answered \<^verbatim>\<open>S_OK\<close>, and none otherwise.
\<close>

definition holds_own_medium :: "DataWrapper \<Rightarrow> HGLOBAL list \<Rightarrow> bool" where
  "holds_own_medium w live = (live = (if m_result w = S_OK then [m_medium w] else []))"

text \<open>
  The condition under which one enumerated format makes the loop of \<^verbatim>\<open>contains\<close> answer
  true for \<open>Image\<close>: the name is looked up in the \<^verbatim>\<open>default\<close> branch only.
\<close>

definition answers_image :: "(CLIPFORMAT \<Rightarrow> string) \<Rightarrow> CLIPFORMAT \<Rightarrow> bool" where
  "answers_image names f =
    (f = CF_DIBV5 \<or> f = CF_DIB \<or> (f \<noteq> CF_HDROP \<and> names f = ''PNG''))"

text \<open>
  A transfer object that advertises a file list and all three image formats and delivers a
  medium for each, with a platform on which only the legacy bitmap decodes.
\<close>

definition example_png :: UINT where
  "example_png = 0xC0A5"

definition example_data_object :: IDataObject where
  "example_data_object =
    \<lparr>GetData = (\<lambda>cfmt. if cfmt = 0xC0A5 then (S_OK, 1)
                       else if cfmt = CF_DIBV5 then (S_OK, 2)
                       else if cfmt = CF_DIB then (S_OK, 3)
                       else if cfmt = CF_HDROP then (S_OK, 4)
                       else (0x80040064, 0)),
     EnumFormatEtc = (S_OK, [CF_HDROP, 0xC0A5, CF_DIBV5, CF_DIB])\<rparr>"

definition example_image_env :: "(nat, nat) image_env" where
  "example_image_env =
    \<lparr>RegisterClipboardFormatA_PNG = example_png,
     GlobalLock = (\<lambda>h. if h = 0 then None else Some [of_nat h]),
     GlobalSize = (\<lambda>h. 1),
     read_png = (\<lambda>p n. None),
     BitmapInfo_v5_to_image = (\<lambda>p. None),
     BitmapInfo_to_image = (\<lambda>p. Some (length p + 41)),
     makeSurface = (\<lambda>img. Some (img + 1))\<rparr>"

definition example_format_names :: "CLIPFORMAT \<Rightarrow> string" where
  "example_format_names cfmt = (if cfmt = 0xC0A5 then ''PNG'' else [])"

section \<open>Properties of the conversion\<close>

lemmas dnd_consts =
  DROPEFFECT_NONE_def DROPEFFECT_COPY_def DROPEFFECT_MOVE_def DROPEFFECT_LINK_def
  DropOperation_None_def DropOperation_Copy_def DropOperation_Move_def DropOperation_Link_def

lemma operation_subsets_eval: "operation_subsets = [0, 1, 2, 4, 3, 5, 6, 7]"
  by (simp add: operation_subsets_def dnd_consts)

text \<open>
  C4. For each of the eight subsets of Copy, Move and Link, encoding the portable bitmask as
  a native effect and decoding it again gives the bitmask back; the empty set is None on the
  portable side and \<^verbatim>\<open>DROPEFFECT_NONE\<close> on the native side, in both directions.
\<close>

theorem dropoperation_roundtrip:
  "(\<forall>x \<in> set operation_subsets. as_dropoperation (as_dropeffect x) = x)
   \<and> as_dropeffect DropOperation_None = DROPEFFECT_NONE
   \<and> as_dropoperation DROPEFFECT_NONE = DropOperation_None"
  unfolding operation_subsets_eval
  by (simp add: as_dropeffect_def as_dropoperation_def dnd_consts)

theorem dropoperation_roundtrip_witness:
  "DropOperation_Copy OR DropOperation_Link \<in> set operation_subsets
   \<and> as_dropoperation (as_dropeffect (DropOperation_Copy OR DropOperation_Link))
       = DropOperation_Copy OR DropOperation_Link"
proof -
  have mem: "DropOperation_Copy OR DropOperation_Link \<in> set operation_subsets"
    by (simp add: operation_subsets_def)
  from dropoperation_roundtrip mem show ?thesis by blast
qed

section \<open>Properties of the session callbacks\<close>

lemmas hresult_consts = S_OK_def E_NOTIMPL_def E_UNEXPECTED_def

lemmas example_adapter_defs =
  DragTargetAdapter_new_def example_window_def example_stc_def drag_position_def
  adapter_of_def status_of_def

text \<open>
  C1, against the claim as stated. A session is entered with the transfer object 7 on a
  window that has a drag target; \<^verbatim>\<open>Drop\<close> then arrives with a null reference. It returns
  \<^verbatim>\<open>E_UNEXPECTED\<close>, but the adapter held 7 before the call and holds nothing after it: the
  null reference is stored before it is tested. And on a window without a drag target,
  \<^verbatim>\<open>DragEnter\<close> with a null reference returns \<^verbatim>\<open>E_NOTIMPL\<close>, not \<^verbatim>\<open>E_UNEXPECTED\<close>.
\<close>

theorem null_reference_mutates_counterexample:
  "m_data (adapter_of (DragEnter example_stc (DragTargetAdapter_new (example_window True))
      (Some 7) 0 (105, 57) 7)) = Some 7
   \<and> status_of (Drop example_stc
        (adapter_of (DragEnter example_stc (DragTargetAdapter_new (example_window True))
           (Some 7) 0 (105, 57) 7))
        None 0 (105, 57) 7) = E_UNEXPECTED
   \<and> m_data (adapter_of (Drop example_stc
        (adapter_of (DragEnter example_stc (DragTargetAdapter_new (example_window True))
           (Some 7) 0 (105, 57) 7))
        None 0 (105, 57) 7)) = None
   \<and> status_of (DragEnter example_stc (DragTargetAdapter_new (example_window False))
        None 0 (105, 57) 7) = E_NOTIMPL
   \<and> E_NOTIMPL \<noteq> E_UNEXPECTED"
  by (simp add: DragEnter_def Drop_def example_adapter_defs hresult_consts)

text \<open>
  C1, as amended. On a window that has a drag target, \<^verbatim>\<open>DragEnter\<close> and \<^verbatim>\<open>Drop\<close> with a
  null transfer-object reference return \<^verbatim>\<open>E_UNEXPECTED\<close>, a status distinct from success
  and from \<^verbatim>\<open>E_NOTIMPL\<close>; the stored position and the effect are as before the call, and
  the adapter holds no data-object reference after it, whatever it held before.
\<close>

theorem null_reference_unexpected:
  "hasDragTarget (m_window a) \<Longrightarrow>
     DragEnter stc a None grfKeyState pt pdwEffect = (E_UNEXPECTED, a\<lparr>m_data := None\<rparr>, pdwEffect)
     \<and> Drop stc a None grfKeyState pt pdwEffect = (E_UNEXPECTED, a\<lparr>m_data := None\<rparr>, pdwEffect)
     \<and> m_position (a\<lparr>m_data := None\<rparr>) = m_position a
     \<and> E_UNEXPECTED \<noteq> S_OK \<and> E_UNEXPECTED \<noteq> E_NOTIMPL"
  by (simp add: DragEnter_def Drop_def hresult_consts)

theorem null_reference_unexpected_witness:
  "hasDragTarget (m_window (DragTargetAdapter_new (example_window True)))
   \<and> DragEnter example_stc (DragTargetAdapter_new (example_window True)) None 0 (105, 57) 7
       = (E_UNEXPECTED, (DragTargetAdapter_new (example_window True))\<lparr>m_data := None\<rparr>, 7)"
proof -
  have h: "hasDragTarget (m_window (DragTargetAdapter_new (example_window True)))"
    by (simp add: DragTargetAdapter_new_def example_window_def)
  from null_reference_unexpected [OF h, of example_stc 0 "(105, 57)" 7] h
  show ?thesis by blast
qed

text \<open>
  C2, against the claim as stated. After \<^verbatim>\<open>DragEnter\<close> at the screen point (105, 57) and
  \<^verbatim>\<open>DragLeave\<close>, the adapter is not in its initial state: the position computed by
  \<^verbatim>\<open>DragEnter\<close> is still stored. Entering at another point leaves another final state,
  so the two cannot both be the one Idle state.
\<close>

theorem enter_leave_keeps_position_counterexample:
  "snd (DragLeave (adapter_of (DragEnter example_stc (DragTargetAdapter_new (example_window True))
      (Some 7) 0 (105, 57) 7))) \<noteq> DragTargetAdapter_new (example_window True)
   \<and> m_position (snd (DragLeave (adapter_of (DragEnter example_stc
        (DragTargetAdapter_new (example_window True)) (Some 7) 0 (105, 57) 7)))) = (5, 7)
   \<and> m_position (DragTargetAdapter_new (example_window True)) = (0, 0)
   \<and> snd (DragLeave (adapter_of (DragEnter example_stc (DragTargetAdapter_new (example_window True))
        (Some 7) 0 (105, 57) 7)))
     \<noteq> snd (DragLeave (adapter_of (DragEnter example_stc (DragTargetAdapter_new (example_window True))
        (Some 7) 0 (108, 59) 7)))"
  by (simp add: DragEnter_def DragLeave_def Let_def example_adapter_defs)

text \<open>
  C2, as amended. On a window that has a drag target, after \<^verbatim>\<open>DragEnter\<close> with a non-null
  transfer object followed by \<^verbatim>\<open>DragLeave\<close>, \<^verbatim>\<open>DragLeave\<close> has returned \<^verbatim>\<open>S_OK\<close> and
  the adapter holds no transfer-object reference; its stored position is the window-local
  position that \<^verbatim>\<open>DragEnter\<close> computed, and nothing else of the adapter has changed (it
  has no member for an operation bitmask).
\<close>

theorem enter_leave_releases:
  "hasDragTarget (m_window a) \<Longrightarrow>
     DragLeave (adapter_of (DragEnter stc a (Some d) grfKeyState pt pdwEffect))
       = (S_OK, a\<lparr>m_data := None,
                  m_position := drag_position stc (nativeHandle (m_window a)) pt\<rparr>)"
  by (simp add: DragEnter_def DragLeave_def adapter_of_def Let_def)

theorem enter_leave_releases_witness:
  "hasDragTarget (m_window (DragTargetAdapter_new (example_window True)))
   \<and> DragLeave (adapter_of (DragEnter example_stc (DragTargetAdapter_new (example_window True))
        (Some 7) 0 (105, 57) 7))
       = (S_OK, (DragTargetAdapter_new (example_window True))
            \<lparr>m_data := None,
             m_position := drag_position example_stc
               (nativeHandle (m_window (DragTargetAdapter_new (example_window True)))) (105, 57)\<rparr>)"
proof -
  have h: "hasDragTarget (m_window (DragTargetAdapter_new (example_window True)))"
    by (simp add: DragTargetAdapter_new_def example_window_def)
  from enter_leave_releases [OF h, of example_stc 7 0 "(105, 57)" 7] h
  show ?thesis by blast
qed

text \<open>
  C3, against the claim as stated. \<^verbatim>\<open>DragEnter\<close> takes the transfer object 7 on a window
  that has a drag target; the window then loses its drag target, and \<^verbatim>\<open>Drop\<close> arrives.
  \<^verbatim>\<open>Drop\<close> returns \<^verbatim>\<open>E_NOTIMPL\<close> at its first test, and the adapter still holds 7
  when it has returned.
\<close>

theorem enter_drop_keeps_reference_counterexample:
  "m_data (adapter_of (DragEnter example_stc (DragTargetAdapter_new (example_window True))
      (Some 7) 0 (105, 57) 7)) = Some 7
   \<and> status_of (Drop example_stc
        (window_becomes
           (adapter_of (DragEnter example_stc (DragTargetAdapter_new (example_window True))
              (Some 7) 0 (105, 57) 7))
           (example_window False))
        (Some 7) 0 (110, 60) 7) = E_NOTIMPL
   \<and> m_data (adapter_of (Drop example_stc
        (window_becomes
           (adapter_of (DragEnter example_stc (DragTargetAdapter_new (example_window True))
              (Some 7) 0 (105, 57) 7))
           (example_window False))
        (Some 7) 0 (110, 60) 7)) = Some 7"
  by (simp add: DragEnter_def Drop_def Let_def window_becomes_def example_adapter_defs)

text \<open>
  C3, as amended. For \<^verbatim>\<open>DragEnter\<close> followed by \<^verbatim>\<open>Drop\<close>, with any transfer objects,
  positions and effects, from any state of the adapter, when the window has a drag target
  at the time \<^verbatim>\<open>Drop\<close> is called, then for any handlers of the window (so also a drop
  handler that declines every operation) the adapter holds no data-object reference when
  \<^verbatim>\<open>Drop\<close> has returned.
\<close>

theorem enter_drop_releases:
  "hasDragTarget w \<Longrightarrow>
     m_data (adapter_of (Drop stc
        (window_becomes
           (adapter_of (DragEnter stc a pDataObj grfKeyState pt pdwEffect)) w)
        pDataObj' grfKeyState' pt' pdwEffect')) = None"
  by (simp add: Drop_def adapter_of_def window_becomes_def Let_def)

theorem enter_drop_releases_witness:
  "hasDragTarget (example_window True)
   \<and> m_data (adapter_of (DragEnter example_stc (DragTargetAdapter_new (example_window True))
        (Some 7) 0 (105, 57) 7)) = Some 7
   \<and> m_data (adapter_of (Drop example_stc
        (window_becomes
           (adapter_of (DragEnter example_stc (DragTargetAdapter_new (example_window True))
              (Some 7) 0 (105, 57) 7))
           (example_window True))
        (Some 8) 0 (110, 60) 7)) = None"
proof -
  have h: "hasDragTarget (example_window True)"
    by (simp add: example_window_def)
  have e: "m_data (adapter_of (DragEnter example_stc (DragTargetAdapter_new (example_window True))
        (Some 7) 0 (105, 57) 7)) = Some 7"
    by (simp add: DragEnter_def Let_def example_adapter_defs)
  from enter_drop_releases
    [OF h, of example_stc "DragTargetAdapter_new (example_window True)"
       "Some 7" 0 "(105, 57)" 7 "Some 8" 0 "(110, 60)" 7] h e
  show ?thesis by blast
qed

text \<open>
  C5. When the window has no drag target, each of \<^verbatim>\<open>DragEnter\<close>, \<^verbatim>\<open>DragOver\<close>,
  \<^verbatim>\<open>DragLeave\<close> and \<^verbatim>\<open>Drop\<close> returns \<^verbatim>\<open>E_NOTIMPL\<close>, in every session state and for all
  arguments, and leaves the adapter (held reference and stored position) and the effect
  exactly as they were.
\<close>

theorem no_drag_target_notimpl:
  "\<not> hasDragTarget (m_window a) \<Longrightarrow>
     DragEnter stc a pDataObj grfKeyState pt pdwEffect = (E_NOTIMPL, a, pdwEffect)
     \<and> DragOver stc a grfKeyState pt pdwEffect = (E_NOTIMPL, a, pdwEffect)
     \<and> DragLeave a = (E_NOTIMPL, a)
     \<and> Drop stc a pDataObj grfKeyState pt pdwEffect = (E_NOTIMPL, a, pdwEffect)"
  by (simp add: DragEnter_def DragOver_def DragLeave_def Drop_def)

theorem no_drag_target_notimpl_witness:
  "\<not> hasDragTarget (m_window ((DragTargetAdapter_new (example_window False))\<lparr>m_data := Some 7\<rparr>))
   \<and> Drop example_stc ((DragTargetAdapter_new (example_window False))\<lparr>m_data := Some 7\<rparr>)
        (Some 8) 0 (105, 57) 7
       = (E_NOTIMPL, (DragTargetAdapter_new (example_window False))\<lparr>m_data := Some 7\<rparr>, 7)
   \<and> DragLeave ((DragTargetAdapter_new (example_window False))\<lparr>m_data := Some 7\<rparr>)
       = (E_NOTIMPL, (DragTargetAdapter_new (example_window False))\<lparr>m_data := Some 7\<rparr>)"
proof -
  have h: "\<not> hasDragTarget
      (m_window ((DragTargetAdapter_new (example_window False))\<lparr>m_data := Some 7\<rparr>))"
    by (simp add: DragTargetAdapter_new_def example_window_def)
  from no_drag_target_notimpl [OF h, of example_stc "Some 8" 0 "(105, 57)" 7] h
  show ?thesis by blast
qed

section \<open>Properties of the reference count\<close>












section \<open>Properties of the format data source\<close>

lemma holds_own_medium_new: "holds_own_medium (DataWrapper_new d) []"
  by (simp add: holds_own_medium_def DataWrapper_new_def S_OK_def)

lemma release_no_live: "holds_own_medium w live \<Longrightarrow> snd (release w live) = []"
  by (simp add: holds_own_medium_def release_def)

lemma release_holds: "holds_own_medium w live \<Longrightarrow> holds_own_medium (fst (release w live)) []"
  by (simp add: holds_own_medium_def release_def S_OK_def)

lemma query_holds: "query w [] cfmt = (h, w', live') \<Longrightarrow> holds_own_medium w' live'"
  by (auto simp: holds_own_medium_def query_def Let_def split: prod.splits if_splits)

lemma get_holds:
  assumes "holds_own_medium w live" and "get w live cfmt = (h, w', live')"
  shows "holds_own_medium w' live'"
proof -
  obtain w0 l0 where r: "release w live = (w0, l0)"
    by (cases "release w live") auto
  with release_no_live [OF assms(1)] have "l0 = []" by simp
  with r assms(2) have "query w0 [] cfmt = (h, w', live')"
    by (simp add: get_def)
  then show ?thesis by (rule query_holds)
qed

lemma gets_holds:
  "holds_own_medium w live \<Longrightarrow> gets w live cfmts = (w', live') \<Longrightarrow> holds_own_medium w' live'"
proof (induction cfmts arbitrary: w live)
  case Nil
  then show ?case by simp
next
  case (Cons cfmt cfmts)
  obtain h w1 l1 where g: "get w live cfmt = (h, w1, l1)"
    by (cases "get w live cfmt") auto
  from get_holds [OF Cons.prems(1) g] have "holds_own_medium w1 l1" .
  with Cons g show ?case by simp
qed

text \<open>
  C8. After any number of queries on a freshly made \<^verbatim>\<open>DataWrapper\<close>, at most one medium
  delivered to it is live; the \<^verbatim>\<open>release\<close> with which the next \<^verbatim>\<open>get\<close> begins leaves
  none live before the new query is issued; and the destructor leaves none live either.
\<close>

theorem at_most_one_live_medium:
  "case gets (DataWrapper_new d) [] cfmts of
     (w, live) \<Rightarrow>
       length live \<le> 1
       \<and> snd (release w live) = []
       \<and> DataWrapper_destroy w live = []"
proof -
  obtain w live where g: "gets (DataWrapper_new d) [] cfmts = (w, live)"
    by (cases "gets (DataWrapper_new d) [] cfmts") auto
  from gets_holds [OF holds_own_medium_new g] have i: "holds_own_medium w live" .
  then have "length live \<le> 1"
    by (simp add: holds_own_medium_def)
  with i g show ?thesis
    by (simp add: release_no_live DataWrapper_destroy_def)
qed

theorem at_most_one_live_medium_witness:
  "case gets (DataWrapper_new example_data_object) [] [CF_HDROP, 0xC0A5, CF_DIBV5, 99, CF_DIB] of
     (w, live) \<Rightarrow>
       length live \<le> 1
       \<and> snd (release w live) = []
       \<and> DataWrapper_destroy w live = []"
  by (rule at_most_one_live_medium)

section \<open>Properties of the content provider\<close>

lemma get_delivers:
  "get w live cfmt = (h, w', live') \<Longrightarrow>
     m_data_w w' = m_data_w w
     \<and> spec_delivers env (m_data_w w) cfmt = map_option (\<lambda>p. (h, p)) (GLocked (GlobalLock env) h)"
  by (cases "GetData (m_data_w w) cfmt")
     (auto simp: get_def query_def release_def spec_delivers_def GLocked_def Let_def
           split: prod.splits if_splits)

lemma DataWrapper_new_data: "m_data_w (DataWrapper_new obj) = obj"
  by (simp add: DataWrapper_new_def)

lemma getImage_first_decoded:
  "fst (getImage env obj) =
     (case spec_first_decoded env obj (spec_image_formats env) of
        Some img \<Rightarrow> makeSurface env img
      | None \<Rightarrow> None)"
proof (cases "RegisterClipboardFormatA_PNG env \<noteq> 0")
  case True
  obtain h1 w1 l1 where
    g1: "get (DataWrapper_new obj) [] (ucast (RegisterClipboardFormatA_PNG env)) = (h1, w1, l1)"
    by (metis prod_cases3)
  obtain h2 w2 l2 where g2: "get w1 l1 CF_DIBV5 = (h2, w2, l2)"
    by (metis prod_cases3)
  obtain h3 w3 l3 where g3: "get w2 l2 CF_DIB = (h3, w3, l3)"
    by (metis prod_cases3)
  note d1 = get_delivers [OF g1, where env = env, unfolded DataWrapper_new_data]
  note d2 = get_delivers [OF g2, where env = env, unfolded conjunct1 [OF d1]]
  note d3 = get_delivers [OF g3, where env = env, unfolded conjunct1 [OF d2] conjunct1 [OF d1]]
  show ?thesis
    using True
    by (simp add: getImage_def spec_image_formats_def Let_def g1 g2 g3 d1 d2 d3
             split: option.splits)
next
  case False
  obtain h2 w2 l2 where g2: "get (DataWrapper_new obj) [] CF_DIBV5 = (h2, w2, l2)"
    by (metis prod_cases3)
  obtain h3 w3 l3 where g3: "get w2 l2 CF_DIB = (h3, w3, l3)"
    by (metis prod_cases3)
  note d2 = get_delivers [OF g2, where env = env, unfolded DataWrapper_new_data]
  note d3 = get_delivers [OF g3, where env = env, unfolded conjunct1 [OF d2]]
  show ?thesis
    using False
    by (simp add: getImage_def spec_image_formats_def Let_def g2 g3 d2 d3
             split: option.splits)
qed

text \<open>
  C6. \<^verbatim>\<open>getImage\<close> returns the surface made from the first format, in the order PNG (when
  its identifier is registered), extended bitmap, legacy bitmap, that both delivers data and
  decodes. In particular, when all three deliver data and only the legacy bitmap decodes,
  the surface is made from the image of the legacy bitmap; and when no format decodes, the
  result is the null surface, not an error.
\<close>

theorem getImage_priority_order:
  "fst (getImage env obj) =
     (case spec_first_decoded env obj (spec_image_formats env) of
        Some img \<Rightarrow> makeSurface env img
      | None \<Rightarrow> None)
   \<and> (RegisterClipboardFormatA_PNG env \<noteq> 0
        \<and> spec_delivers env obj (ucast (RegisterClipboardFormatA_PNG env)) = Some (h1, p1)
        \<and> read_png env p1 (GlobalSize env h1) = None
        \<and> spec_delivers env obj CF_DIBV5 = Some (h2, p2)
        \<and> BitmapInfo_v5_to_image env p2 = None
        \<and> spec_delivers env obj CF_DIB = Some (h3, p3)
        \<and> BitmapInfo_to_image env p3 = Some img
      \<longrightarrow> fst (getImage env obj) = makeSurface env img)
   \<and> (spec_first_decoded env obj (spec_image_formats env) = None
      \<longrightarrow> fst (getImage env obj) = None)"
  by (simp add: getImage_first_decoded spec_image_formats_def)

lemmas example_provider_defs =
  example_image_env_def example_data_object_def example_png_def example_format_names_def
  spec_delivers_def CF_DIB_def CF_DIBV5_def CF_HDROP_def S_OK_def

theorem getImage_priority_order_witness:
  "RegisterClipboardFormatA_PNG example_image_env \<noteq> 0
   \<and> spec_delivers example_image_env example_data_object
        (ucast (RegisterClipboardFormatA_PNG example_image_env)) = Some (1, [1])
   \<and> read_png example_image_env [1] (GlobalSize example_image_env 1) = None
   \<and> spec_delivers example_image_env example_data_object CF_DIBV5 = Some (2, [2])
   \<and> BitmapInfo_v5_to_image example_image_env [2] = None
   \<and> spec_delivers example_image_env example_data_object CF_DIB = Some (3, [3])
   \<and> BitmapInfo_to_image example_image_env [3] = Some 42
   \<and> fst (getImage example_image_env example_data_object) = Some 43"
proof -
  have h: "RegisterClipboardFormatA_PNG example_image_env \<noteq> 0
     \<and> spec_delivers example_image_env example_data_object
          (ucast (RegisterClipboardFormatA_PNG example_image_env)) = Some (1, [1])
     \<and> read_png example_image_env [1] (GlobalSize example_image_env 1) = None
     \<and> spec_delivers example_image_env example_data_object CF_DIBV5 = Some (2, [2])
     \<and> BitmapInfo_v5_to_image example_image_env [2] = None
     \<and> spec_delivers example_image_env example_data_object CF_DIB = Some (3, [3])
     \<and> BitmapInfo_to_image example_image_env [3] = Some 42"
    by (simp add: example_provider_defs)
  have m: "makeSurface example_image_env 42 = Some 43"
    by (simp add: example_image_env_def)
  from getImage_priority_order
    [of example_image_env example_data_object 1 "[1]" 2 "[2]" 3 "[3]" 42] h
  have "fst (getImage example_image_env example_data_object) = makeSurface example_image_env 42"
    by blast
  with h m show ?thesis by simp
qed

lemma take_PNG: "take 99 s = ''PNG'' \<longleftrightarrow> s = ''PNG''"
proof
  assume a: "take 99 s = ''PNG''"
  then have "length (take 99 s) = 3" by simp
  then have "length s = 3" by (simp add: min_def split: if_splits)
  with a show "s = ''PNG''" by simp
qed simp

lemma format_name_PNG:
  "GetClipboardFormatNameA names cfmt 100 = ''PNG'' \<longleftrightarrow> names cfmt = ''PNG''"
  by (simp add: GetClipboardFormatNameA_def take_PNG)

lemma CF_distinct:
  "CF_DIB \<noteq> CF_HDROP" "CF_DIBV5 \<noteq> CF_HDROP" "CF_DIB \<noteq> CF_DIBV5"
  "CF_HDROP \<noteq> CF_DIB" "CF_HDROP \<noteq> CF_DIBV5" "CF_DIBV5 \<noteq> CF_DIB"
  by (simp_all add: CF_DIB_def CF_HDROP_def CF_DIBV5_def)

lemma contains_loop_Image:
  "contains_loop names Image formats \<longleftrightarrow> (\<exists>f \<in> set formats. answers_image names f)"
proof (induction formats)
  case Nil
  show ?case by simp
next
  case (Cons f formats)
  show ?case
    by (cases "f = CF_HDROP"; cases "f = CF_DIBV5"; cases "f = CF_DIB")
       (simp_all add: Cons.IH format_name_PNG CF_distinct answers_image_def)
qed

lemma contains_loop_Paths:
  "contains_loop names Paths formats \<longleftrightarrow> CF_HDROP \<in> set formats"
proof (induction formats)
  case Nil
  show ?case by simp
next
  case (Cons f formats)
  show ?case
    by (cases "f = CF_HDROP"; cases "f = CF_DIBV5"; cases "f = CF_DIB")
       (simp_all add: Cons.IH CF_distinct)
qed

text \<open>
  C7. Whatever formats the transfer object enumerates, and in whatever order,
  \<^verbatim>\<open>contains(Image)\<close> is true exactly when the enumeration could be started and one of the
  formats is the extended bitmap, the legacy bitmap or a format whose registered name is
  exactly PNG; \<^verbatim>\<open>contains(Paths)\<close> is true exactly when the enumeration could be
  started and the file-list format is among them; and \<^verbatim>\<open>contains\<close> is false when the
  enumeration could not be started. The file-list format, a predefined one, is not
  registered under the name PNG.
\<close>

theorem contains_advertised:
  "names CF_HDROP \<noteq> ''PNG'' \<Longrightarrow>
     (contains names obj Image \<longleftrightarrow>
        fst (EnumFormatEtc obj) = S_OK
        \<and> (\<exists>f \<in> set (snd (EnumFormatEtc obj)). f = CF_DIBV5 \<or> f = CF_DIB \<or> names f = ''PNG''))
     \<and> (contains names obj Paths \<longleftrightarrow>
        fst (EnumFormatEtc obj) = S_OK \<and> CF_HDROP \<in> set (snd (EnumFormatEtc obj)))
     \<and> (fst (EnumFormatEtc obj) \<noteq> S_OK \<longrightarrow> \<not> contains names obj type)"
proof -
  assume h: "names CF_HDROP \<noteq> ''PNG''"
  have e: "answers_image names f \<longleftrightarrow> (f = CF_DIBV5 \<or> f = CF_DIB \<or> names f = ''PNG'')" for f
    using h unfolding answers_image_def by blast
  show ?thesis
    by (cases "EnumFormatEtc obj")
       (simp add: contains_def contains_loop_Image contains_loop_Paths e)
qed

theorem contains_advertised_witness:
  "example_format_names CF_HDROP \<noteq> ''PNG''
   \<and> contains example_format_names example_data_object Image
   \<and> contains example_format_names example_data_object Paths
   \<and> \<not> contains example_format_names (example_data_object\<lparr>EnumFormatEtc := (E_NOTIMPL, [])\<rparr>) Image"
proof -
  have h: "example_format_names CF_HDROP \<noteq> ''PNG''"
    by (simp add: example_format_names_def CF_HDROP_def)
  have i: "fst (EnumFormatEtc example_data_object) = S_OK
      \<and> (\<exists>f \<in> set (snd (EnumFormatEtc example_data_object)).
            f = CF_DIBV5 \<or> f = CF_DIB \<or> example_format_names f = ''PNG'')"
    by (simp add: example_data_object_def)
  have p: "fst (EnumFormatEtc example_data_object) = S_OK
      \<and> CF_HDROP \<in> set (snd (EnumFormatEtc example_data_object))"
    by (simp add: example_data_object_def)
  have n: "fst (EnumFormatEtc (example_data_object\<lparr>EnumFormatEtc := (E_NOTIMPL, [])\<rparr>)) \<noteq> S_OK"
    by (simp add: hresult_consts)
  from contains_advertised [of example_format_names example_data_object, OF h] i p
  have a: "contains example_format_names example_data_object Image
      \<and> contains example_format_names example_data_object Paths"
    by blast
  from contains_advertised
    [of example_format_names "example_data_object\<lparr>EnumFormatEtc := (E_NOTIMPL, [])\<rparr>" Image,
     OF h] n
  have "\<not> contains example_format_names
      (example_data_object\<lparr>EnumFormatEtc := (E_NOTIMPL, [])\<rparr>) Image"
    by blast
  with h a show ?thesis by blast
qed

section \<open>Properties of the tablet button mapping\<close>

text \<open>
  C10. \<^verbatim>\<open>mapCursorButton\<close> never indexes the 32-entry button map out of bounds: it returns
  without a fault for all arguments, and for a logical button outside the range from 0 to 31
  it returns with the button \<^verbatim>\<open>NoneButton\<close> and the event type given by the relative
  button alone (down, up, and move otherwise), whatever the map holds.
\<close>

theorem mapCursorButton_in_bounds:
  "(\<exists>r. mapCursorButton sysbtnmap cursor logicalButton relativeButton = Inr r)
   \<and> (\<not> (0 \<le> logicalButton \<and> logicalButton < 32) \<longrightarrow>
        mapCursorButton sysbtnmap cursor logicalButton relativeButton =
          Inr (if relativeButton = TBN_DOWN then MouseDown
               else if relativeButton = TBN_UP then MouseUp
               else MouseMove,
               NoneButton))"
  by (auto simp: mapCursorButton_def array_read_def Let_def)

theorem mapCursorButton_in_bounds_witness:
  "\<not> (0 \<le> (32::int) \<and> (32::int) < 32)
   \<and> mapCursorButton (\<lambda>cursor i. SBN_LDBLCLICK) 0 32 TBN_DOWN = Inr (MouseDown, NoneButton)
   \<and> (\<exists>r. mapCursorButton (\<lambda>cursor i. SBN_LDBLCLICK) 0 31 TBN_DOWN = Inr r)"
proof -
  have h: "\<not> (0 \<le> (32::int) \<and> (32::int) < 32)" by simp
  from mapCursorButton_in_bounds [of "\<lambda>cursor i. SBN_LDBLCLICK" 0 32 TBN_DOWN] h
  have a: "mapCursorButton (\<lambda>cursor i. SBN_LDBLCLICK) 0 32 TBN_DOWN = Inr (MouseDown, NoneButton)"
    by simp
  from mapCursorButton_in_bounds [of "\<lambda>cursor i. SBN_LDBLCLICK" 0 31 TBN_DOWN]
  have b: "\<exists>r. mapCursorButton (\<lambda>cursor i. SBN_LDBLCLICK) 0 31 TBN_DOWN = Inr r"
    by blast
  from h a b show ?thesis by blast
qed

end
